theory Spec2Isabelle
  imports Main "HOL-Library.Sublist"
begin

section \<open>JavaScript strings and values\<close>

text \<open>
  Strings are byte lists (the UTF-8 text of the JavaScript string).  Concatenation,
  \<open>includes\<close>, \<open>split\<close> and \<open>join\<close> on valid UTF-8 agree with the same operations
  on the UTF-16 code units of the source, so nothing below depends on the encoding.
\<close>

definition NL :: string where
  "NL = [CHR 0x0A]"

definition TAB :: string where
  "TAB = [CHR 0x09]"

definition DQ :: string where
  "DQ = [CHR 0x22]"

text \<open>\<open>haystack.includes(needle)\<close>: the needle occurs at some position.\<close>

fun includes_str :: "string \<Rightarrow> string \<Rightarrow> bool" where
  "includes_str [] needle = (needle = [])"
| "includes_str (c # cs) needle = (prefix needle (c # cs) \<or> includes_str cs needle)"

text \<open>\<open>arr.join(sep)\<close> on an array of strings.\<close>

fun join :: "string \<Rightarrow> string list \<Rightarrow> string" where
  "join sep [] = []"
| "join sep [x] = x"
| "join sep (x # y # ys) = x @ sep @ join sep (y # ys)"

text \<open>
  \<open>s.split(".")\<close> with a one-character separator: the pieces between the separators,
  never an empty array (\<open>"".split(".")\<close> is \<open>[""]\<close>).
\<close>

fun split :: "char \<Rightarrow> string \<Rightarrow> string list" where
  "split sep [] = [[]]"
| "split sep (c # cs) =
     (if c = sep then [] # split sep cs
      else (case split sep cs of
              [] \<Rightarrow> [[c]]
            | p # ps \<Rightarrow> (c # p) # ps))"

text \<open>\<open>arr.at(-1)\<close>: the last element, \<open>undefined\<close> (here \<open>None\<close>) on an empty array.\<close>

definition at_last :: "'a list \<Rightarrow> 'a option" where
  "at_last xs = (if xs = [] then None else Some (last xs))"

text \<open>A string-or-undefined value inside a template literal.\<close>

definition template_opt :: "string option \<Rightarrow> string" where
  "template_opt v = (case v of None \<Rightarrow> ''undefined'' | Some s \<Rightarrow> s)"

text \<open>\<open>arr.push(x)\<close>, returning the updated array.\<close>

definition push :: "'a list \<Rightarrow> 'a \<Rightarrow> 'a list" where
  "push arr x = arr @ [x]"

text \<open>
  A number is modelled by what \<open>generateTypes\<close> can see of it, the text that a template
  literal and \<open>JSON.stringify\<close> print for it.  A finite number is the text that
  JavaScript's number-to-string conversion gives it: \<open>8080\<close> is \<open>Finite ''8080''\<close>, \<open>0.5\<close> is
  \<open>Finite ''0.5''\<close>, \<open>2^64\<close> is \<open>Finite ''18446744073709552000''\<close>, \<open>1e21\<close> is
  \<open>Finite ''1e+21''\<close>.  \<open>NaN\<close> and the two infinities are values of their own, since
  \<open>JSON.stringify\<close> treats them apart.
\<close>

datatype js_number = Finite string | NaN | PosInfinity | NegInfinity

text \<open>\<open>`${n}`\<close> for a number.\<close>

fun number_to_string :: "js_number \<Rightarrow> string" where
  "number_to_string (Finite t) = t"
| "number_to_string NaN = ''NaN''"
| "number_to_string PosInfinity = ''Infinity''"
| "number_to_string NegInfinity = ''-Infinity''"

text \<open>\<open>JSON.stringify(n)\<close> for a number: a number that is not finite is written \<open>null\<close>.\<close>

fun number_to_json :: "js_number \<Rightarrow> string" where
  "number_to_json (Finite t) = t"
| "number_to_json _ = ''null''"

text \<open>
  The values a variable of the configuration can hold.  \<open>JFunction\<close> and \<open>JSymbol\<close>
  stand for any value whose \<open>typeof\<close> is \<open>"function"\<close> or \<open>"symbol"\<close>.  An object is
  the list of its own enumerable properties in the order \<open>for ... in\<close> and
  \<open>JSON.stringify\<close> visit them.
\<close>

datatype jsval =
    JString string
  | JNumber js_number
  | JBoolean bool
  | JNull
  | JUndefined
  | JFunction
  | JSymbol
  | JArray "jsval list"
  | JObject "(string \<times> jsval) list"

fun typeof :: "jsval \<Rightarrow> string" where
  "typeof (JString _) = ''string''"
| "typeof (JNumber _) = ''number''"
| "typeof (JBoolean _) = ''boolean''"
| "typeof JNull = ''object''"
| "typeof JUndefined = ''undefined''"
| "typeof JFunction = ''function''"
| "typeof JSymbol = ''symbol''"
| "typeof (JArray _) = ''object''"
| "typeof (JObject _) = ''object''"

subsection \<open>\<open>JSON.stringify\<close>\<close>

text \<open>The lower-case hexadecimal digit for \<open>d < 16\<close>.\<close>

definition hex_char :: "nat \<Rightarrow> char" where
  "hex_char d = ''0123456789abcdef'' ! d"

text \<open>The escape of one character inside a JSON string literal.\<close>

definition quote_char :: "char \<Rightarrow> string" where
  "quote_char c =
     (if c = CHR 0x22 then [CHR 0x5C, CHR 0x22]
      else if c = CHR 0x5C then [CHR 0x5C, CHR 0x5C]
      else if c = CHR 0x08 then [CHR 0x5C, CHR ''b'']
      else if c = CHR 0x09 then [CHR 0x5C, CHR ''t'']
      else if c = CHR 0x0A then [CHR 0x5C, CHR ''n'']
      else if c = CHR 0x0C then [CHR 0x5C, CHR ''f'']
      else if c = CHR 0x0D then [CHR 0x5C, CHR ''r'']
      else if of_char c < (32 :: nat)
        then [CHR 0x5C, CHR ''u'', CHR ''0'', CHR ''0'',
              hex_char (of_char c div 16), hex_char (of_char c mod 16)]
      else [c])"

definition quote_json :: "string \<Rightarrow> string" where
  "quote_json s = DQ @ concat (map quote_char s) @ DQ"

text \<open>
  \<open>stringify v\<close> is \<open>None\<close> where \<open>JSON.stringify\<close> gives \<open>undefined\<close>.  An array
  element that serialises to \<open>undefined\<close> is written \<open>null\<close>; an object property
  that does is left out.
\<close>

fun stringify :: "jsval \<Rightarrow> string option"
  and stringify_elems :: "jsval list \<Rightarrow> string list"
  and stringify_props :: "(string \<times> jsval) list \<Rightarrow> string list" where
  "stringify (JString s) = Some (quote_json s)"
| "stringify (JNumber n) = Some (number_to_json n)"
| "stringify (JBoolean b) = Some (if b then ''true'' else ''false'')"
| "stringify JNull = Some ''null''"
| "stringify JUndefined = None"
| "stringify JFunction = None"
| "stringify JSymbol = None"
| "stringify (JArray vs) = Some (''['' @ join '','' (stringify_elems vs) @ '']'')"
| "stringify (JObject ps) = Some (''{'' @ join '','' (stringify_props ps) @ ''}'')"
| "stringify_elems [] = []"
| "stringify_elems (v # vs) =
     (case stringify v of None \<Rightarrow> ''null'' | Some s \<Rightarrow> s) # stringify_elems vs"
| "stringify_props [] = []"
| "stringify_props ((k, v) # ps) =
     (case stringify v of
        None \<Rightarrow> stringify_props ps
      | Some s \<Rightarrow> (quote_json k @ '':'' @ s) # stringify_props ps)"

text \<open>
  \<open>`${v}`\<close> for a string, number or boolean.  The source interpolates a variable's
  value only under a \<open>typeof\<close> guard that admits these three, so the text of the
  other values is never asked for; the last equation is not a model of them.
\<close>

fun to_string :: "jsval \<Rightarrow> string" where
  "to_string (JString s) = s"
| "to_string (JNumber n) = number_to_string n"
| "to_string (JBoolean b) = (if b then ''true'' else ''false'')"
| "to_string JNull = ''null''"
| "to_string JUndefined = ''undefined''"
| "to_string _ = []"

section \<open>The configuration\<close>

text \<open>
  An entry of a binding collection, reduced to the field the generator reads: its
  \<open>binding\<close> identifier, or its \<open>name\<close> for durable objects and unsafe bindings.
\<close>

record binding_entry =
  binding :: string

record named_entry =
  name :: string

text \<open>
  The declared module types of an import rule (the type \<open>ConfigModuleRuleType\<close> of the
  configuration).
\<close>

datatype ConfigModuleRuleType = ESModule | CommonJS | CompiledWasm | Text | Data

record rule =
  type :: ConfigModuleRuleType
  globs :: "string list"

text \<open>
  \<open>Partial<Config>\<close>: every field is optional, \<open>None\<close> is \<open>undefined\<close>.  Nested
  optional paths are one field each: \<open>durable_objects_bindings\<close> is
  \<open>durable_objects?.bindings\<close>, \<open>logfwdr_bindings\<close> is \<open>logfwdr?.bindings\<close>,
  \<open>unsafe_bindings\<close> is \<open>unsafe?.bindings\<close>, \<open>queues_producers\<close> is \<open>queues.producers\<close>
  (\<open>undefined\<close> also when \<open>queues\<close> is), \<open>site_entry_point\<close> is
  \<open>site?.["entry-point"]\<close>.  The object-valued fields \<open>vars\<close>, \<open>data_blobs\<close> and
  \<open>text_blobs\<close> are the lists of their properties in \<open>for ... in\<close> order.
\<close>

record Config =
  main :: "string option"
  site_entry_point :: "string option"
  kv_namespaces :: "binding_entry list option"
  vars :: "(string \<times> jsval) list option"
  durable_objects_bindings :: "named_entry list option"
  r2_buckets :: "binding_entry list option"
  d1_databases :: "binding_entry list option"
  services :: "binding_entry list option"
  constellation :: "binding_entry list option"
  analytics_engine_datasets :: "binding_entry list option"
  dispatch_namespaces :: "binding_entry list option"
  logfwdr_bindings :: "binding_entry list option"
  data_blobs :: "(string \<times> string) list option"
  text_blobs :: "(string \<times> string) list option"
  unsafe_bindings :: "named_entry list option"
  queues_producers :: "binding_entry list option"
  rules :: "rule list option"

datatype CfScriptFormat = Modules | ServiceWorker

section \<open>The binding type mapper\<close>

text \<open>
  \<open>if (coll) { for (const x of coll) { env.push(line x) } }\<close>: nothing for an
  \<open>undefined\<close> collection, one push per element otherwise (an array is truthy even
  when empty).
\<close>

definition push_each :: "('a \<Rightarrow> string) \<Rightarrow> 'a list option \<Rightarrow> string list \<Rightarrow> string list" where
  "push_each line coll env =
     (case coll of
        None \<Rightarrow> env
      | Some xs \<Rightarrow> fold (\<lambda>x acc. push acc (line x)) xs env)"

text \<open>The body of the loop over \<open>vars\<close>: two independent \<open>if\<close> statements.\<close>

definition vars_step :: "string \<times> jsval \<Rightarrow> string list \<Rightarrow> string list" where
  "vars_step kv env =
     (let varName = fst kv;
          varValue = snd kv;
          env1 = (if typeof varValue = ''string'' \<or> typeof varValue = ''number''
                     \<or> typeof varValue = ''boolean''
                  then push env (varName @ '': '' @ DQ @ to_string varValue @ DQ @ '';'')
                  else env)
      in if typeof varValue = ''object'' \<and> varValue \<noteq> JNull
         then push env1 (varName @ '': '' @ template_opt (stringify varValue) @ '';'')
         else env1)"

definition push_vars :: "(string \<times> jsval) list option \<Rightarrow> string list \<Rightarrow> string list" where
  "push_vars coll env = (case coll of None \<Rightarrow> env | Some kvs \<Rightarrow> fold vars_step kvs env)"

text \<open>
  \<open>if (logfwdr?.bindings?.length) env.push(`LOGFWDR_SCHEMA: any;`)\<close>: one fixed line
  when the list has at least one element.
\<close>

definition push_logfwdr :: "binding_entry list option \<Rightarrow> string list \<Rightarrow> string list" where
  "push_logfwdr coll env =
     (case coll of
        None \<Rightarrow> env
      | Some xs \<Rightarrow> if length xs \<noteq> 0 then push env ''LOGFWDR_SCHEMA: any;'' else env)"

text \<open>The array \<open>envTypeStructure\<close> at the end of \<open>generateTypes\<close>.\<close>

definition envTypeStructure :: "Config \<Rightarrow> string list" where
  "envTypeStructure configToDTS =
     (let env = [];
          env = push_each (\<lambda>kvNamespace. binding kvNamespace @ '': KVNamespace;'')
                  (kv_namespaces configToDTS) env;
          env = push_vars (vars configToDTS) env;
          env = push_each (\<lambda>durableObject. name durableObject @ '': DurableObjectNamespace;'')
                  (durable_objects_bindings configToDTS) env;
          env = push_each (\<lambda>R2Bucket. binding R2Bucket @ '': R2Bucket;'')
                  (r2_buckets configToDTS) env;
          env = push_each (\<lambda>d1. binding d1 @ '': D1Database;'')
                  (d1_databases configToDTS) env;
          env = push_each (\<lambda>service. binding service @ '': Fetcher;'')
                  (services configToDTS) env;
          env = push_each (\<lambda>service. binding service @ '': Fetcher;'')
                  (constellation configToDTS) env;
          env = push_each (\<lambda>analyticsEngine. binding analyticsEngine @ '': AnalyticsEngineDataset;'')
                  (analytics_engine_datasets configToDTS) env;
          env = push_each (\<lambda>namespace. binding namespace @ '': DispatchNamespace;'')
                  (dispatch_namespaces configToDTS) env;
          env = push_logfwdr (logfwdr_bindings configToDTS) env;
          env = push_each (\<lambda>dataBlobs. fst dataBlobs @ '': ArrayBuffer;'')
                  (data_blobs configToDTS) env;
          env = push_each (\<lambda>textBlobs. fst textBlobs @ '': string;'')
                  (text_blobs configToDTS) env;
          env = push_each (\<lambda>unsafe. name unsafe @ '': any;'')
                  (unsafe_bindings configToDTS) env;
          env = push_each (\<lambda>queue. binding queue @ '': Queue;'')
                  (queues_producers configToDTS) env
      in env)"

text \<open>The lookup table \<open>moduleTypeMap\<close> of the import rules.\<close>

fun moduleTypeMap :: "ConfigModuleRuleType \<Rightarrow> string option" where
  "moduleTypeMap Text = Some ''string''"
| "moduleTypeMap Data = Some ''ArrayBuffer''"
| "moduleTypeMap CompiledWasm = Some ''WebAssembly.Module''"
| "moduleTypeMap _ = None"

text \<open>The ambient declaration pushed for one glob: three lines, the inner two behind a tab.\<close>

definition module_declaration :: "string \<Rightarrow> string \<Rightarrow> string" where
  "module_declaration typeScriptType glob =
     ''declare module '' @ DQ @ ''*.'' @ template_opt (at_last (split CHR ''.'' glob)) @ DQ @ '' {'' @ NL
     @ TAB @ ''const value: '' @ typeScriptType @ '';'' @ NL
     @ TAB @ ''export default value;'' @ NL
     @ ''}''"

definition rules_step :: "rule \<Rightarrow> string list \<Rightarrow> string list" where
  "rules_step ruleObject mods =
     (case moduleTypeMap (type ruleObject) of
        None \<Rightarrow> mods
      | Some typeScriptType \<Rightarrow>
          fold (\<lambda>glob acc. push acc (module_declaration typeScriptType glob))
            (globs ruleObject) mods)"

text \<open>The array \<open>modulesTypeStructure\<close> at the end of \<open>generateTypes\<close>.\<close>

definition modulesTypeStructure :: "Config \<Rightarrow> string list" where
  "modulesTypeStructure configToDTS =
     (case rules configToDTS of
        None \<Rightarrow> []
      | Some rs \<Rightarrow> fold rules_step rs [])"

section \<open>Errors, the file system and the clock\<close>

text \<open>
  The exceptions that can cross \<open>writeDTSFile\<close>: the \<open>UserError\<close> it throws itself and
  the errors of Node's \<open>fs\<close> functions.  Both are instances of \<open>Error\<close> and carry a
  \<open>message\<close>.
\<close>

datatype error = UserError (message: string) | NodeError (message: string)

fun instanceof_Error :: "error \<Rightarrow> bool" where
  "instanceof_Error (UserError _) = True"
| "instanceof_Error (NodeError _) = True"

text \<open>
  A path is the list of its components below the root.  \<open>files\<close> holds the content of
  every regular file; \<open>read_error\<close> and \<open>write_error\<close> give the error that reading or
  writing a path raises (permissions, for instance), when it raises one.  \<open>now\<close> is
  the text of \<open>new Date()\<close> inside a template literal, \<open>logged\<close> what \<open>logger.log\<close> has
  received.
\<close>

type_synonym path = "string list"

record world =
  cwd :: path
  files :: "path \<rightharpoonup> string"
  read_error :: "path \<rightharpoonup> error"
  write_error :: "path \<rightharpoonup> error"
  now :: string
  logged :: "string list"

definition path_text :: "path \<Rightarrow> string" where
  "path_text p = ''/'' @ join ''/'' p"

text \<open>
  The error of a failed \<open>open\<close>, with the message Node gives it: the code, its
  description, the system call and the path between single quotes.
\<close>

definition node_error :: "string \<Rightarrow> string \<Rightarrow> path \<Rightarrow> error" where
  "node_error code description p =
     NodeError (code @ '': '' @ description @ '', open '' @ [CHR 0x27] @ path_text p @ [CHR 0x27])"

definition readFileSync :: "world \<Rightarrow> path \<Rightarrow> error + string" where
  "readFileSync w p =
     (case read_error w p of
        Some e \<Rightarrow> Inl e
      | None \<Rightarrow>
          (case files w p of
             Some content \<Rightarrow> Inr content
           | None \<Rightarrow> Inl (node_error ''ENOENT'' ''no such file or directory'' p)))"

text \<open>A relative file name resolves against the working directory.\<close>

definition resolve :: "world \<Rightarrow> string \<Rightarrow> path" where
  "resolve w file = cwd w @ [file]"

definition writeFileSync :: "string \<Rightarrow> string \<Rightarrow> world \<Rightarrow> (error + unit) \<times> world" where
  "writeFileSync file data w =
     (case write_error w (resolve w file) of
        Some e \<Rightarrow> (Inl e, w)
      | None \<Rightarrow> (Inr (), w\<lparr>files := (files w)(resolve w file \<mapsto> data)\<rparr>))"

text \<open>The working directory and its ancestors, innermost first, the root last.\<close>

definition ancestors :: "path \<Rightarrow> path list" where
  "ancestors d = map (\<lambda>n. take n d) (rev [0..<Suc (length d)])"

text \<open>
  \<open>findUpSync(file)\<close>: the first regular file of that name met when walking from the
  working directory up to the root, \<open>undefined\<close> when there is none.
\<close>

definition findUpSync :: "world \<Rightarrow> string \<Rightarrow> path option" where
  "findUpSync w file = find (\<lambda>p. files w p \<noteq> None) (map (\<lambda>d. d @ [file]) (ancestors (cwd w)))"

definition logger_log :: "string \<Rightarrow> world \<Rightarrow> world" where
  "logger_log msg w = w\<lparr>logged := logged w @ [msg]\<rparr>"

section \<open>The declaration writer\<close>

definition dts_name :: string where
  "dts_name = ''worker-configuration.d.ts''"

definition generated_marker :: string where
  "generated_marker = ''Generated by Wrangler''"

definition foreign_file_error :: error where
  "foreign_file_error =
     UserError ''A non-wrangler worker-configuration.d.ts already exists, please rename and try again.''"

text \<open>
  The \<open>try\<close> block of \<open>writeDTSFile\<close>: the file is read only when one was found, and
  the marker is looked for only in what was read.
\<close>

definition ownership_try :: "world \<Rightarrow> error + unit" where
  "ownership_try w =
     (case findUpSync w dts_name of
        None \<Rightarrow> Inr ()
      | Some wranglerOverrideDTSPath \<Rightarrow>
          (case readFileSync w wranglerOverrideDTSPath of
             Inl e \<Rightarrow> Inl e
           | Inr content \<Rightarrow>
               if \<not> includes_str content generated_marker then Inl foreign_file_error
               else Inr ()))"

text \<open>The \<open>catch\<close> clause: an error is thrown again unless its message has \<open>not found\<close>.\<close>

definition ownership_check :: "world \<Rightarrow> error + unit" where
  "ownership_check w =
     (case ownership_try w of
        Inl err \<Rightarrow>
          if instanceof_Error err \<and> \<not> includes_str (message err) ''not found'' then Inl err
          else Inr ()
      | Inr u \<Rightarrow> Inr u)"

definition combinedTypeStrings :: "CfScriptFormat \<Rightarrow> string list \<Rightarrow> string list \<Rightarrow> string" where
  "combinedTypeStrings formatType env mods =
     (if formatType = Modules
      then ''interface Env {'' @ NL @ join NL (map (\<lambda>v. TAB @ v) env) @ NL @ ''}'' @ NL
           @ join NL mods
      else ''export {};'' @ NL @ ''declare global {'' @ NL
           @ join NL (map (\<lambda>v. TAB @ ''const '' @ v) env) @ NL @ ''}'' @ NL
           @ join NL mods)"

definition file_text :: "world \<Rightarrow> string \<Rightarrow> string" where
  "file_text w combined = ''// Generated by Wrangler on '' @ now w @ NL @ combined"

text \<open>
  What \<open>writeDTSFile\<close> does after the \<open>try\<close>/\<open>catch\<close>: it assembles the text and, unless
  both arrays are empty, writes the file and logs the text.
\<close>

definition write_output ::
  "string list \<Rightarrow> string list \<Rightarrow> CfScriptFormat \<Rightarrow> world \<Rightarrow> (error + unit) \<times> world" where
  "write_output env mods formatType w =
     (let combined = combinedTypeStrings formatType env mods
      in if length env \<noteq> 0 \<or> length mods \<noteq> 0
         then (case writeFileSync dts_name (file_text w combined) w of
                 (Inl e, w') \<Rightarrow> (Inl e, w')
               | (Inr _, w') \<Rightarrow> (Inr (), logger_log combined w'))
         else (Inr (), w))"

definition writeDTSFile ::
  "string list \<Rightarrow> string list \<Rightarrow> CfScriptFormat \<Rightarrow> world \<Rightarrow> (error + unit) \<times> world" where
  "writeDTSFile env mods formatType w =
     (case ownership_check w of
        Inl e \<Rightarrow> (Inl e, w)
      | Inr _ \<Rightarrow> write_output env mods formatType w)"

text \<open>
  \<open>generateTypes\<close>.  \<open>getEntry\<close> is a parameter: what awaiting
  \<open>getEntry({}, config, "types")\<close> gives for this configuration, an error or the entry
  point's format.
\<close>

definition configContainsEntryPoint :: "Config \<Rightarrow> bool" where
  "configContainsEntryPoint config =
     (main config \<noteq> None \<or> (case site_entry_point config of None \<Rightarrow> False | Some s \<Rightarrow> s \<noteq> []))"

definition generateTypes ::
  "(Config \<Rightarrow> error + CfScriptFormat) \<Rightarrow> Config \<Rightarrow> Config \<Rightarrow> world \<Rightarrow> (error + unit) \<times> world" where
  "generateTypes getEntry configToDTS config w =
     (case (if configContainsEntryPoint config then getEntry config else Inr Modules) of
        Inl e \<Rightarrow> (Inl e, w)
      | Inr entrypointFormat \<Rightarrow>
          writeDTSFile (envTypeStructure configToDTS) (modulesTypeStructure configToDTS)
            entrypointFormat w)"

section \<open>Notions used in the statements\<close>

text \<open>The entries of an optional collection: none when the field is absent.\<close>

definition entries :: "'a list option \<Rightarrow> 'a list" where
  "entries coll = (case coll of None \<Rightarrow> [] | Some xs \<Rightarrow> xs)"

text \<open>The lines one variable contributes: what the loop body pushes for it.\<close>

definition var_members :: "string \<times> jsval \<Rightarrow> string list" where
  "var_members kv = vars_step kv []"

text \<open>
  The members kind by kind, in the order in which \<open>generateTypes\<close> visits the kinds,
  each kind's entries in the order of its collection.
\<close>

definition member_blocks :: "Config \<Rightarrow> string list list" where
  "member_blocks c =
     [map (\<lambda>e. binding e @ '': KVNamespace;'') (entries (kv_namespaces c)),
      concat (map var_members (entries (vars c))),
      map (\<lambda>e. name e @ '': DurableObjectNamespace;'') (entries (durable_objects_bindings c)),
      map (\<lambda>e. binding e @ '': R2Bucket;'') (entries (r2_buckets c)),
      map (\<lambda>e. binding e @ '': D1Database;'') (entries (d1_databases c)),
      map (\<lambda>e. binding e @ '': Fetcher;'') (entries (services c)),
      map (\<lambda>e. binding e @ '': Fetcher;'') (entries (constellation c)),
      map (\<lambda>e. binding e @ '': AnalyticsEngineDataset;'') (entries (analytics_engine_datasets c)),
      map (\<lambda>e. binding e @ '': DispatchNamespace;'') (entries (dispatch_namespaces c)),
      (if entries (logfwdr_bindings c) = [] then [] else [''LOGFWDR_SCHEMA: any;'']),
      map (\<lambda>e. fst e @ '': ArrayBuffer;'') (entries (data_blobs c)),
      map (\<lambda>e. fst e @ '': string;'') (entries (text_blobs c)),
      map (\<lambda>e. name e @ '': any;'') (entries (unsafe_bindings c)),
      map (\<lambda>e. binding e @ '': Queue;'') (entries (queues_producers c))]"

text \<open>The part of a glob after its last dot (the whole glob when it has no dot).\<close>

definition last_segment :: "string \<Rightarrow> string" where
  "last_segment glob = rev (takeWhile (\<lambda>c. c \<noteq> CHR ''.'') (rev glob))"

text \<open>
  The ambient declaration of the modules \<open>*.ext\<close> with default export of type \<open>T\<close>:
  \<open>declare module "*.ext" {\<close>, then \<open>const value: T;\<close> and \<open>export default value;\<close>
  each on a line of its own behind a tab, then \<open>}\<close>.
\<close>

definition ambient_declaration :: "string \<Rightarrow> string \<Rightarrow> string" where
  "ambient_declaration ext T =
     ''declare module '' @ [CHR 0x22] @ ''*.'' @ ext @ [CHR 0x22] @ '' {'' @ [CHR 0x0A]
     @ [CHR 0x09] @ ''const value: '' @ T @ '';'' @ [CHR 0x0A]
     @ [CHR 0x09] @ ''export default value;'' @ [CHR 0x0A]
     @ ''}''"

section \<open>Concrete configurations and worlds\<close>

definition empty_config :: Config where
  "empty_config =
     \<lparr>main = None, site_entry_point = None, kv_namespaces = None, vars = None,
      durable_objects_bindings = None, r2_buckets = None, d1_databases = None,
      services = None, constellation = None, analytics_engine_datasets = None,
      dispatch_namespaces = None, logfwdr_bindings = None, data_blobs = None,
      text_blobs = None, unsafe_bindings = None, queues_producers = None, rules = None\<rparr>"

definition mixed_vars_config :: Config where
  "mixed_vars_config =
     empty_config\<lparr>vars := Some [(''FOO'', JString ''bar''), (''RATE'', JNumber (Finite ''0.5'')),
                                  (''DEBUG'', JBoolean True)]\<rparr>"

definition port_config :: Config where
  "port_config = empty_config\<lparr>vars := Some [(''PORT'', JNumber (Finite ''8080''))]\<rparr>"

definition null_var_config :: Config where
  "null_var_config =
     empty_config\<lparr>vars := Some [(''A'', JString ''x''), (''GONE'', JNull), (''B'', JBoolean True)]\<rparr>"

definition logfwdr_config :: Config where
  "logfwdr_config =
     empty_config\<lparr>logfwdr_bindings := Some [\<lparr>binding = ''first''\<rparr>, \<lparr>binding = ''second''\<rparr>]\<rparr>"

definition kv_config :: Config where
  "kv_config =
     empty_config\<lparr>kv_namespaces := Some [\<lparr>binding = ''STORE''\<rparr>, \<lparr>binding = ''CACHE''\<rparr>],
                  unsafe_bindings := Some [\<lparr>name = ''RAW''\<rparr>]\<rparr>"

definition text_rule_config :: Config where
  "text_rule_config =
     empty_config\<lparr>rules := Some [\<lparr>type = Text, globs = [''*.txt'']\<rparr>,
                                   \<lparr>type = ESModule, globs = [''*.mjs'']\<rparr>]\<rparr>"

text \<open>A project directory \<open>/home/proj\<close> with nothing in it or above it.\<close>

definition bare_world :: world where
  "bare_world =
     \<lparr>cwd = [''home'', ''proj''], files = Map.empty, read_error = Map.empty,
      write_error = Map.empty, now = ''Mon Nov 02 2026 10:00:00 GMT+0000'', logged = []\<rparr>"

text \<open>The same an hour later.\<close>

definition later_world :: world where
  "later_world = bare_world\<lparr>now := ''Mon Nov 02 2026 11:00:00 GMT+0000''\<rparr>"

text \<open>A hand-written declaration file in the project directory.\<close>

definition foreign_world :: world where
  "foreign_world =
     bare_world\<lparr>files := [[''home'', ''proj'', ''worker-configuration.d.ts'']
                              \<mapsto> ''interface Env { MINE: string }'']\<rparr>"

text \<open>A generated declaration file in the parent directory \<open>/home\<close>.\<close>

definition ancestor_world :: world where
  "ancestor_world =
     bare_world\<lparr>files := [[''home'', ''worker-configuration.d.ts'']
                              \<mapsto> ''// Generated by Wrangler on Sun Nov 01 2026'']\<rparr>"




section \<open>The mapper as a concatenation\<close>

lemma fold_push: "fold (\<lambda>x acc. push acc (f x)) xs acc = acc @ map f xs"
  by (induction xs arbitrary: acc) (simp_all add: push_def)

lemma push_each_entries: "push_each f coll env = env @ map f (entries coll)"
  by (cases coll) (simp_all add: push_each_def entries_def fold_push)

lemma vars_step_append: "vars_step kv env = env @ var_members kv"
  by (simp add: vars_step_def var_members_def push_def Let_def)

lemma fold_vars_step: "fold vars_step kvs env = env @ concat (map var_members kvs)"
proof (induction kvs arbitrary: env)
  case Nil
  show ?case by simp
next
  case (Cons kv kvs)
  have "fold vars_step (kv # kvs) env = fold vars_step kvs (vars_step kv env)"
    by simp
  also have "\<dots> = vars_step kv env @ concat (map var_members kvs)"
    by (rule Cons.IH)
  also have "\<dots> = env @ concat (map var_members (kv # kvs))"
    by (simp add: vars_step_append)
  finally show ?case .
qed

lemma push_vars_entries: "push_vars coll env = env @ concat (map var_members (entries coll))"
  by (cases coll) (simp_all add: push_vars_def entries_def fold_vars_step)

lemma push_logfwdr_entries:
  "push_logfwdr coll env = env @ (if entries coll = [] then [] else [''LOGFWDR_SCHEMA: any;''])"
  by (cases coll) (simp_all add: push_logfwdr_def entries_def push_def)

lemma envTypeStructure_blocks: "envTypeStructure c = concat (member_blocks c)"
  unfolding envTypeStructure_def member_blocks_def Let_def
  by (simp only: push_each_entries push_vars_entries push_logfwdr_entries concat.simps
        append_Nil append_Nil2 append_assoc)

lemma var_members_primitive:
  "typeof v = ''string'' \<or> typeof v = ''number'' \<or> typeof v = ''boolean'' \<Longrightarrow>
   var_members (n, v) = [n @ '': '' @ DQ @ to_string v @ DQ @ '';'']"
  by (cases v) (simp_all add: var_members_def vars_step_def push_def)

lemma var_members_skipped:
  "typeof v \<noteq> ''string'' \<Longrightarrow> typeof v \<noteq> ''number'' \<Longrightarrow> typeof v \<noteq> ''boolean'' \<Longrightarrow>
   v = JNull \<or> typeof v \<noteq> ''object'' \<Longrightarrow> var_members (n, v) = []"
  by (cases v) (simp_all add: var_members_def vars_step_def push_def)

lemma vars_block_member:
  "(n, v) \<in> set kvs \<Longrightarrow> line \<in> set (var_members (n, v)) \<Longrightarrow>
   line \<in> set (concat (map var_members kvs))"
  by auto

section \<open>Globs and module declarations\<close>

lemma split_nonempty: "split sep s \<noteq> []"
  by (induction s) (auto split: list.splits)

lemma split_no_sep: "sep \<notin> set s \<Longrightarrow> split sep s = [s]"
  by (induction s) auto

lemma split_with_sep: "sep \<in> set s \<Longrightarrow> \<exists>p q qs. split sep s = p # q # qs"
proof (induction s)
  case Nil
  then show ?case by simp
next
  case (Cons c cs)
  show ?case
  proof (cases "c = sep")
    case True
    then show ?thesis using split_nonempty [of sep cs] by (cases "split sep cs") auto
  next
    case False
    with Cons.prems have "sep \<in> set cs" by simp
    then obtain p q qs where "split sep cs = p # q # qs" using Cons.IH by blast
    with False show ?thesis by simp
  qed
qed

lemma last_split: "last (split sep s) = rev (takeWhile (\<lambda>c. c \<noteq> sep) (rev s))"
proof (induction s)
  case Nil
  show ?case by simp
next
  case (Cons c cs)
  show ?case
  proof (cases "sep \<in> set cs")
    case True
    then obtain p q qs where sp: "split sep cs = p # q # qs"
      using split_with_sep by blast
    have tw: "takeWhile (\<lambda>c. c \<noteq> sep) (rev cs @ [c]) = takeWhile (\<lambda>c. c \<noteq> sep) (rev cs)"
      using True by (intro takeWhile_append1 [of sep]) auto
    show ?thesis using Cons.IH sp tw by auto
  next
    case False
    then have sp: "split sep cs = [cs]" by (rule split_no_sep)
    have tw: "takeWhile (\<lambda>c. c \<noteq> sep) (rev cs @ [c]) = rev cs @ takeWhile (\<lambda>c. c \<noteq> sep) [c]"
      using False by (intro takeWhile_append2) auto
    show ?thesis using sp tw by auto
  qed
qed

lemma segment_text: "template_opt (at_last (split CHR ''.'' glob)) = last_segment glob"
  by (simp add: template_opt_def at_last_def split_nonempty last_split last_segment_def)

lemma fold_rules_step:
  "fold rules_step rs mods =
     mods @ concat (map (\<lambda>r. case moduleTypeMap (type r) of
                                None \<Rightarrow> []
                              | Some T \<Rightarrow> map (module_declaration T) (globs r)) rs)"
  by (induction rs arbitrary: mods) (simp_all add: rules_step_def fold_push split: option.splits)

lemma module_declaration_text:
  "module_declaration T = (\<lambda>glob. ambient_declaration (last_segment glob) T)"
  by (rule ext)
    (simp add: module_declaration_def ambient_declaration_def segment_text DQ_def NL_def TAB_def)

lemma rule_declarations_cases:
  "(case moduleTypeMap t of None \<Rightarrow> [] | Some T \<Rightarrow> map (module_declaration T) gs) =
     (if t = Text then map (\<lambda>glob. ambient_declaration (last_segment glob) ''string'') gs
      else if t = Data then map (\<lambda>glob. ambient_declaration (last_segment glob) ''ArrayBuffer'') gs
      else if t = CompiledWasm
        then map (\<lambda>glob. ambient_declaration (last_segment glob) ''WebAssembly.Module'') gs
      else [])"
  by (cases t) (simp_all add: module_declaration_text)

section \<open>The ownership check and the write\<close>

lemma instanceof_Error_always: "instanceof_Error e"
  by (cases e) simp_all

lemma foreign_message_kept: "\<not> includes_str (message foreign_file_error) ''not found''"
  by (simp add: foreign_file_error_def)

lemma ownership_check_absent: "findUpSync w dts_name = None \<Longrightarrow> ownership_check w = Inr ()"
  by (simp add: ownership_check_def ownership_try_def)

lemma ownership_check_generated:
  "findUpSync w dts_name = Some p \<Longrightarrow> readFileSync w p = Inr content \<Longrightarrow>
   includes_str content generated_marker \<Longrightarrow> ownership_check w = Inr ()"
  by (simp add: ownership_check_def ownership_try_def)

lemma ownership_check_foreign:
  "findUpSync w dts_name = Some p \<Longrightarrow> readFileSync w p = Inr content \<Longrightarrow>
   \<not> includes_str content generated_marker \<Longrightarrow> ownership_check w = Inl foreign_file_error"
  using foreign_message_kept
  by (simp add: ownership_check_def ownership_try_def instanceof_Error_always)


lemma write_output_empty: "write_output [] [] fmt w = (Inr (), w)"
  by (simp add: write_output_def)

lemma write_output_written:
  "env \<noteq> [] \<or> mods \<noteq> [] \<Longrightarrow> write_error w (resolve w dts_name) = None \<Longrightarrow>
   write_output env mods fmt w =
     (Inr (), w\<lparr>files := (files w)(resolve w dts_name \<mapsto> file_text w (combinedTypeStrings fmt env mods)),
               logged := logged w @ [combinedTypeStrings fmt env mods]\<rparr>)"
  by (simp add: write_output_def writeFileSync_def logger_log_def Let_def)

lemma write_output_refused:
  "env \<noteq> [] \<or> mods \<noteq> [] \<Longrightarrow> write_error w (resolve w dts_name) = Some e \<Longrightarrow>
   write_output env mods fmt w = (Inl e, w)"
  by (simp add: write_output_def writeFileSync_def Let_def)




lemma findUpSync_elsewhere:
  assumes "findUpSync w file = Some p" and "p \<noteq> resolve w file"
  shows "files w (resolve w file) = None"
proof (rule ccontr)
  assume present: "files w (resolve w file) \<noteq> None"
  have "ancestors (cwd w) = cwd w # map (\<lambda>n. take n (cwd w)) (rev [0..<length (cwd w)])"
    by (simp add: ancestors_def)
  then have "findUpSync w file = Some (resolve w file)"
    using present by (simp add: findUpSync_def resolve_def)
  with assms show False by simp
qed

lemma writeDTSFile_success:
  assumes "fst (writeDTSFile env mods fmt w) = Inr ()" and "env \<noteq> [] \<or> mods \<noteq> []"
  shows "writeDTSFile env mods fmt w =
     (Inr (), w\<lparr>files := (files w)(resolve w dts_name \<mapsto> file_text w (combinedTypeStrings fmt env mods)),
               logged := logged w @ [combinedTypeStrings fmt env mods]\<rparr>)"
proof (cases "ownership_check w")
  case (Inl e)
  with assms(1) show ?thesis by (simp add: writeDTSFile_def)
next
  case (Inr u)
  show ?thesis
  proof (cases "write_error w (resolve w dts_name)")
    case None
    with Inr assms(2) show ?thesis
      by (simp add: writeDTSFile_def write_output_written)
  next
    case (Some e)
    with Inr assms show ?thesis
      by (simp add: writeDTSFile_def write_output_refused)
  qed
qed

lemma write_output_frame:
  "q \<noteq> resolve w dts_name \<Longrightarrow> files (snd (write_output env mods fmt w)) q = files w q"
  by (cases "write_error w (resolve w dts_name)")
    (simp_all add: write_output_def writeFileSync_def logger_log_def Let_def)

lemma writeDTSFile_frame:
  "q \<noteq> resolve w dts_name \<Longrightarrow> files (snd (writeDTSFile env mods fmt w)) q = files w q"
  by (cases "ownership_check w") (simp_all add: writeDTSFile_def write_output_frame)

lemma generateTypes_format:
  "(if configContainsEntryPoint config then getEntry config else Inr Modules) = Inr fmt \<Longrightarrow>
   generateTypes getEntry c config w =
     writeDTSFile (envTypeStructure c) (modulesTypeStructure c) fmt w"
  by (simp add: generateTypes_def)

lemma generateTypes_no_entry_point:
  "generateTypes getEntry c empty_config w =
     writeDTSFile (envTypeStructure c) (modulesTypeStructure c) Modules w"
  by (simp add: generateTypes_def configContainsEntryPoint_def empty_config_def)

subsection \<open>The concrete worlds\<close>

lemma ancestors_proj:
  "ancestors [''home'', ''proj''] = [[''home'', ''proj''], [''home''], []]"
  by (simp add: ancestors_def)

lemma findUpSync_bare: "findUpSync bare_world dts_name = None"
  by (simp add: findUpSync_def bare_world_def ancestors_proj)

lemma findUpSync_later: "findUpSync later_world dts_name = None"
  by (simp add: findUpSync_def later_world_def bare_world_def ancestors_proj)

lemma findUpSync_foreign:
  "findUpSync foreign_world dts_name = Some [''home'', ''proj'', ''worker-configuration.d.ts'']"
  by (simp add: findUpSync_def foreign_world_def bare_world_def ancestors_proj dts_name_def)

lemma findUpSync_ancestor:
  "findUpSync ancestor_world dts_name = Some [''home'', ''worker-configuration.d.ts'']"
  by (simp add: findUpSync_def ancestor_world_def bare_world_def ancestors_proj dts_name_def)


lemma read_foreign:
  "readFileSync foreign_world [''home'', ''proj'', ''worker-configuration.d.ts''] =
     Inr ''interface Env { MINE: string }''"
  by (simp add: readFileSync_def foreign_world_def bare_world_def)

lemma read_ancestor:
  "readFileSync ancestor_world [''home'', ''worker-configuration.d.ts''] =
     Inr ''// Generated by Wrangler on Sun Nov 01 2026''"
  by (simp add: readFileSync_def ancestor_world_def bare_world_def)












lemma foreign_has_no_marker:
  "\<not> includes_str ''interface Env { MINE: string }'' generated_marker"
  by (simp add: generated_marker_def)

lemma ancestor_has_marker:
  "includes_str ''// Generated by Wrangler on Sun Nov 01 2026'' generated_marker"
  by (simp add: generated_marker_def)

lemma kv_members:
  "envTypeStructure kv_config = [''STORE: KVNamespace;'', ''CACHE: KVNamespace;'', ''RAW: any;'']"
  by (simp add: envTypeStructure_blocks member_blocks_def kv_config_def empty_config_def
        entries_def)

lemma empty_members: "envTypeStructure empty_config = []"
  by (simp add: envTypeStructure_blocks member_blocks_def empty_config_def entries_def)

lemma empty_modules: "modulesTypeStructure empty_config = []"
  by (simp add: modulesTypeStructure_def empty_config_def)

lemma write_allowed_bare: "write_error bare_world p = None"
  by (simp add: bare_world_def)

lemma write_allowed_later: "write_error later_world p = None"
  by (simp add: later_world_def bare_world_def)

lemma write_allowed_ancestor: "write_error ancestor_world p = None"
  by (simp add: ancestor_world_def bare_world_def)

lemma writeDTSFile_bare:
  "env \<noteq> [] \<or> mods \<noteq> [] \<Longrightarrow>
   writeDTSFile env mods fmt bare_world =
     (Inr (), bare_world\<lparr>files := (files bare_world)(resolve bare_world dts_name
                                      \<mapsto> file_text bare_world (combinedTypeStrings fmt env mods)),
                        logged := logged bare_world @ [combinedTypeStrings fmt env mods]\<rparr>)"
  using ownership_check_absent [OF findUpSync_bare]
  by (simp add: writeDTSFile_def write_output_written write_allowed_bare)

lemma writeDTSFile_later:
  "env \<noteq> [] \<or> mods \<noteq> [] \<Longrightarrow>
   writeDTSFile env mods fmt later_world =
     (Inr (), later_world\<lparr>files := (files later_world)(resolve later_world dts_name
                                      \<mapsto> file_text later_world (combinedTypeStrings fmt env mods)),
                        logged := logged later_world @ [combinedTypeStrings fmt env mods]\<rparr>)"
  using ownership_check_absent [OF findUpSync_later]
  by (simp add: writeDTSFile_def write_output_written write_allowed_later)

lemma writeDTSFile_ancestor:
  "env \<noteq> [] \<or> mods \<noteq> [] \<Longrightarrow>
   writeDTSFile env mods fmt ancestor_world =
     (Inr (), ancestor_world\<lparr>files := (files ancestor_world)(resolve ancestor_world dts_name
                                      \<mapsto> file_text ancestor_world (combinedTypeStrings fmt env mods)),
                        logged := logged ancestor_world @ [combinedTypeStrings fmt env mods]\<rparr>)"
  using ownership_check_generated [OF findUpSync_ancestor read_ancestor ancestor_has_marker]
  by (simp add: writeDTSFile_def write_output_written write_allowed_ancestor)

section \<open>Properties of the mapper\<close>

text \<open>
  C1, as amended.  A variable whose value is a string, a number or a boolean gives the
  member \<open>NAME: "TEXT";\<close>, where \<open>TEXT\<close> is the value as a template literal prints it:
  the string itself, the text of the number (\<open>NaN\<close>, \<open>Infinity\<close> and \<open>-Infinity\<close> for
  the numbers that are not finite), \<open>true\<close> or \<open>false\<close>.  The text always stands between
  double quotes, for a number and a boolean as for a string.
\<close>

theorem primitive_var_member:
  assumes "vars c = Some kvs"
    and "(n, v) \<in> set kvs"
    and "typeof v = ''string'' \<or> typeof v = ''number'' \<or> typeof v = ''boolean''"
  shows "(n @ '': '' @ DQ @ to_string v @ DQ @ '';'') \<in> set (envTypeStructure c)"
proof -
  have "(n @ '': '' @ DQ @ to_string v @ DQ @ '';'') \<in> set (var_members (n, v))"
    using assms(3) by (simp add: var_members_primitive)
  then have "(n @ '': '' @ DQ @ to_string v @ DQ @ '';'') \<in> set (concat (map var_members kvs))"
    using assms(2) by (rule vars_block_member [rotated])
  then show ?thesis
    using assms(1) by (simp add: envTypeStructure_blocks member_blocks_def entries_def)
qed

theorem primitive_var_member_witness:
  "vars mixed_vars_config =
     Some [(''FOO'', JString ''bar''), (''RATE'', JNumber (Finite ''0.5'')), (''DEBUG'', JBoolean True)]
   \<and> typeof (JString ''bar'') = ''string''
   \<and> typeof (JNumber (Finite ''0.5'')) = ''number''
   \<and> typeof (JBoolean True) = ''boolean''
   \<and> (''FOO: '' @ [CHR 0x22] @ ''bar'' @ [CHR 0x22] @ '';'') \<in> set (envTypeStructure mixed_vars_config)
   \<and> (''RATE: '' @ [CHR 0x22] @ ''0.5'' @ [CHR 0x22] @ '';'') \<in> set (envTypeStructure mixed_vars_config)
   \<and> (''DEBUG: '' @ [CHR 0x22] @ ''true'' @ [CHR 0x22] @ '';'') \<in> set (envTypeStructure mixed_vars_config)"
proof -
  have vs: "vars mixed_vars_config =
     Some [(''FOO'', JString ''bar''), (''RATE'', JNumber (Finite ''0.5'')), (''DEBUG'', JBoolean True)]"
    by (simp add: mixed_vars_config_def empty_config_def)
  have foo: "(''FOO: '' @ [CHR 0x22] @ ''bar'' @ [CHR 0x22] @ '';'') \<in> set (envTypeStructure mixed_vars_config)"
    using primitive_var_member [OF vs, of "''FOO''" "JString ''bar''"]
    by (simp add: DQ_def)
  have rate: "(''RATE: '' @ [CHR 0x22] @ ''0.5'' @ [CHR 0x22] @ '';'') \<in> set (envTypeStructure mixed_vars_config)"
    using primitive_var_member [OF vs, of "''RATE''" "JNumber (Finite ''0.5'')"]
    by (simp add: DQ_def)
  have debug: "(''DEBUG: '' @ [CHR 0x22] @ ''true'' @ [CHR 0x22] @ '';'') \<in> set (envTypeStructure mixed_vars_config)"
    using primitive_var_member [OF vs, of "''DEBUG''" "JBoolean True"]
    by (simp add: DQ_def)
  show ?thesis
    using vs foo rate debug by simp
qed

text \<open>
  C1 as stated fails for a number: the variable \<open>PORT = 8080\<close> gives the one member
  \<open>PORT: "8080";\<close>, not \<open>PORT: 8080;\<close>.
\<close>

theorem numeric_var_is_quoted:
  "envTypeStructure port_config = [''PORT: '' @ [CHR 0x22] @ ''8080'' @ [CHR 0x22] @ '';'']
   \<and> ''PORT: 8080;'' \<notin> set (envTypeStructure port_config)"
proof -
  have "var_members (''PORT'', JNumber (Finite ''8080'')) =
      [''PORT: '' @ [CHR 0x22] @ ''8080'' @ [CHR 0x22] @ '';'']"
    by (simp add: var_members_primitive DQ_def)
  then have "envTypeStructure port_config = [''PORT: '' @ [CHR 0x22] @ ''8080'' @ [CHR 0x22] @ '';'']"
    by (simp add: envTypeStructure_blocks member_blocks_def entries_def port_config_def
          empty_config_def)
  then show ?thesis by simp
qed

text \<open>
  C9.  A variable whose \<open>typeof\<close> is none of \<open>string\<close>, \<open>number\<close>, \<open>boolean\<close>, and which
  is \<open>null\<close> if its \<open>typeof\<close> is \<open>object\<close>, contributes nothing: the members, the module
  declarations and the whole run are those of the configuration without it.
\<close>

theorem skipped_var_contributes_nothing:
  assumes "vars c = Some (xs @ (n, v) # ys)"
    and "typeof v \<noteq> ''string''" and "typeof v \<noteq> ''number''" and "typeof v \<noteq> ''boolean''"
    and "v = JNull \<or> typeof v \<noteq> ''object''"
  shows "envTypeStructure c = envTypeStructure (c\<lparr>vars := Some (xs @ ys)\<rparr>)
       \<and> modulesTypeStructure c = modulesTypeStructure (c\<lparr>vars := Some (xs @ ys)\<rparr>)
       \<and> generateTypes getEntry c config w = generateTypes getEntry (c\<lparr>vars := Some (xs @ ys)\<rparr>) config w"
proof -
  have none: "var_members (n, v) = []"
    using assms(2-5) by (rule var_members_skipped)
  have env: "envTypeStructure c = envTypeStructure (c\<lparr>vars := Some (xs @ ys)\<rparr>)"
    using assms(1) none by (simp add: envTypeStructure_blocks member_blocks_def entries_def)
  have mods: "modulesTypeStructure c = modulesTypeStructure (c\<lparr>vars := Some (xs @ ys)\<rparr>)"
    by (simp add: modulesTypeStructure_def)
  show ?thesis using env mods by (simp add: generateTypes_def split: sum.splits)
qed

theorem skipped_var_contributes_nothing_witness:
  "vars null_var_config = Some ([(''A'', JString ''x'')] @ (''GONE'', JNull) # [(''B'', JBoolean True)])
   \<and> typeof JNull \<noteq> ''string'' \<and> typeof JNull \<noteq> ''number'' \<and> typeof JNull \<noteq> ''boolean''
   \<and> (JNull = JNull \<or> typeof JNull \<noteq> ''object'')
   \<and> envTypeStructure null_var_config =
       envTypeStructure (null_var_config\<lparr>vars := Some [(''A'', JString ''x''), (''B'', JBoolean True)]\<rparr>)
   \<and> generateTypes (\<lambda>_. Inr Modules) null_var_config empty_config bare_world =
       generateTypes (\<lambda>_. Inr Modules)
         (null_var_config\<lparr>vars := Some [(''A'', JString ''x''), (''B'', JBoolean True)]\<rparr>)
         empty_config bare_world"
  using skipped_var_contributes_nothing [of null_var_config "[(''A'', JString ''x'')]" "''GONE''"
      JNull "[(''B'', JBoolean True)]" "\<lambda>_. Inr Modules" empty_config bare_world]
  by (simp add: null_var_config_def empty_config_def)

text \<open>
  C7.  The module declarations are, rule by rule and glob by glob in their order, one
  ambient declaration for each glob of a rule of type \<open>Text\<close> (type \<open>string\<close>), \<open>Data\<close>
  (\<open>ArrayBuffer\<close>) or \<open>CompiledWasm\<close> (\<open>WebAssembly.Module\<close>), over the part of the glob
  after its last dot; a rule of another type gives none, and nothing is raised.
\<close>

theorem module_declarations_per_glob:
  assumes "rules c = Some rs"
  shows "modulesTypeStructure c =
     concat (map (\<lambda>r.
         if type r = Text
           then map (\<lambda>glob. ambient_declaration (last_segment glob) ''string'') (globs r)
         else if type r = Data
           then map (\<lambda>glob. ambient_declaration (last_segment glob) ''ArrayBuffer'') (globs r)
         else if type r = CompiledWasm
           then map (\<lambda>glob. ambient_declaration (last_segment glob) ''WebAssembly.Module'') (globs r)
         else []) rs)"
proof -
  have "modulesTypeStructure c = fold rules_step rs []"
    using assms by (simp add: modulesTypeStructure_def)
  also have "\<dots> = concat (map (\<lambda>r. case moduleTypeMap (type r) of
                                None \<Rightarrow> []
                              | Some T \<Rightarrow> map (module_declaration T) (globs r)) rs)"
    by (simp add: fold_rules_step)
  finally show ?thesis
    by (simp only: rule_declarations_cases)
qed

theorem module_declarations_per_glob_witness:
  "rules text_rule_config =
     Some [\<lparr>type = Text, globs = [''*.txt'']\<rparr>, \<lparr>type = ESModule, globs = [''*.mjs'']\<rparr>]
   \<and> modulesTypeStructure text_rule_config =
     [''declare module '' @ [CHR 0x22] @ ''*.txt'' @ [CHR 0x22] @ '' {'' @ [CHR 0x0A]
      @ [CHR 0x09] @ ''const value: string;'' @ [CHR 0x0A]
      @ [CHR 0x09] @ ''export default value;'' @ [CHR 0x0A]
      @ ''}'']"
  using module_declarations_per_glob [of text_rule_config
      "[\<lparr>type = Text, globs = [''*.txt'']\<rparr>, \<lparr>type = ESModule, globs = [''*.mjs'']\<rparr>]"]
  by (simp add: text_rule_config_def empty_config_def ambient_declaration_def last_segment_def)

text \<open>
  C4, as amended.  The members are the concatenation, in this order, of one line
  \<open>IDENT: TYPE;\<close> for every entry of each of the kinds key-value namespace
  (\<open>KVNamespace\<close>), durable object (\<open>DurableObjectNamespace\<close>), bucket (\<open>R2Bucket\<close>),
  database (\<open>D1Database\<close>), service and constellation (\<open>Fetcher\<close>), analytics dataset
  (\<open>AnalyticsEngineDataset\<close>), dispatch namespace (\<open>DispatchNamespace\<close>), data blob
  (\<open>ArrayBuffer\<close>), text blob (\<open>string\<close>), unsafe binding (\<open>any\<close>) and queue producer
  (\<open>Queue\<close>), with the variables' members after the key-value namespaces'.  The
  log-forwarding bindings give the single line \<open>LOGFWDR_SCHEMA: any;\<close> when there is
  at least one of them, however many there are.
\<close>

theorem members_per_kind:
  "envTypeStructure c =
     map (\<lambda>e. binding e @ '': KVNamespace;'') (entries (kv_namespaces c))
     @ concat (map var_members (entries (vars c)))
     @ map (\<lambda>e. name e @ '': DurableObjectNamespace;'') (entries (durable_objects_bindings c))
     @ map (\<lambda>e. binding e @ '': R2Bucket;'') (entries (r2_buckets c))
     @ map (\<lambda>e. binding e @ '': D1Database;'') (entries (d1_databases c))
     @ map (\<lambda>e. binding e @ '': Fetcher;'') (entries (services c))
     @ map (\<lambda>e. binding e @ '': Fetcher;'') (entries (constellation c))
     @ map (\<lambda>e. binding e @ '': AnalyticsEngineDataset;'') (entries (analytics_engine_datasets c))
     @ map (\<lambda>e. binding e @ '': DispatchNamespace;'') (entries (dispatch_namespaces c))
     @ (if entries (logfwdr_bindings c) = [] then [] else [''LOGFWDR_SCHEMA: any;''])
     @ map (\<lambda>e. fst e @ '': ArrayBuffer;'') (entries (data_blobs c))
     @ map (\<lambda>e. fst e @ '': string;'') (entries (text_blobs c))
     @ map (\<lambda>e. name e @ '': any;'') (entries (unsafe_bindings c))
     @ map (\<lambda>e. binding e @ '': Queue;'') (entries (queues_producers c))"
  unfolding envTypeStructure_def Let_def
  by (simp only: push_each_entries push_vars_entries push_logfwdr_entries append_Nil append_assoc)

theorem members_per_kind_witness:
  "envTypeStructure kv_config = [''STORE: KVNamespace;'', ''CACHE: KVNamespace;'', ''RAW: any;'']"
  using members_per_kind [of kv_config]
  by (simp add: kv_config_def empty_config_def entries_def)

text \<open>
  C4 as stated fails for the log-forwarding bindings: two entries give one member.
\<close>

theorem logfwdr_one_member_for_two_entries:
  "length (entries (logfwdr_bindings logfwdr_config)) = 2
   \<and> envTypeStructure logfwdr_config = [''LOGFWDR_SCHEMA: any;'']"
  by (simp add: envTypeStructure_blocks member_blocks_def logfwdr_config_def empty_config_def
        entries_def)

section \<open>Properties of the writer\<close>

text \<open>
  C2.  When the upward search finds a file and its content lacks the marker
  \<open>Generated by Wrangler\<close>, \<open>writeDTSFile\<close> raises the foreign-file error and leaves the
  world as it was, whatever the members, the module declarations and the format are;
  so also when both arrays are empty, and so does a whole run of \<open>generateTypes\<close>.
\<close>

theorem foreign_file_aborts:
  assumes "findUpSync w dts_name = Some p"
    and "readFileSync w p = Inr content"
    and "\<not> includes_str content generated_marker"
  shows "writeDTSFile env mods fmt w = (Inl foreign_file_error, w)
       \<and> writeDTSFile [] [] fmt w = (Inl foreign_file_error, w)
       \<and> generateTypes (\<lambda>_. Inr fmt) c config w = (Inl foreign_file_error, w)"
proof -
  have check: "ownership_check w = Inl foreign_file_error"
    using assms by (rule ownership_check_foreign)
  then have abort: "writeDTSFile env' mods' fmt' w = (Inl foreign_file_error, w)" for env' mods' fmt'
    by (simp add: writeDTSFile_def)
  then show ?thesis
    by (simp add: generateTypes_def)
qed

theorem foreign_file_aborts_witness:
  "findUpSync foreign_world dts_name = Some [''home'', ''proj'', ''worker-configuration.d.ts'']
   \<and> readFileSync foreign_world [''home'', ''proj'', ''worker-configuration.d.ts''] =
       Inr ''interface Env { MINE: string }''
   \<and> \<not> includes_str ''interface Env { MINE: string }'' generated_marker
   \<and> writeDTSFile [] [] Modules foreign_world = (Inl foreign_file_error, foreign_world)
   \<and> generateTypes (\<lambda>_. Inr Modules) empty_config empty_config foreign_world =
       (Inl foreign_file_error, foreign_world)"
  using foreign_file_aborts [OF findUpSync_foreign read_foreign foreign_has_no_marker,
      of "[]" "[]" Modules empty_config empty_config]
    findUpSync_foreign read_foreign foreign_has_no_marker
  by blast

text \<open>
  C6.  With both arrays empty, and no file found by the upward search or a found file
  that reads and holds the marker, \<open>writeDTSFile\<close> returns normally and the world is
  unchanged: no file is written and nothing is logged.  A run of \<open>generateTypes\<close> on
  the configuration without bindings and rules is such a call.
\<close>

theorem empty_output_writes_nothing:
  assumes "findUpSync w dts_name = None
     \<or> (\<exists>p content. findUpSync w dts_name = Some p \<and> readFileSync w p = Inr content
            \<and> includes_str content generated_marker)"
  shows "writeDTSFile [] [] fmt w = (Inr (), w)
       \<and> generateTypes (\<lambda>_. Inr fmt) empty_config config w = (Inr (), w)"
proof -
  have check: "ownership_check w = Inr ()"
    using assms ownership_check_absent ownership_check_generated by blast
  then have skip: "writeDTSFile [] [] fmt' w = (Inr (), w)" for fmt'
    by (simp add: writeDTSFile_def write_output_empty)
  then show ?thesis
    by (simp add: generateTypes_def empty_members empty_modules)
qed

theorem empty_output_writes_nothing_witness:
  "findUpSync ancestor_world dts_name = Some [''home'', ''worker-configuration.d.ts'']
   \<and> readFileSync ancestor_world [''home'', ''worker-configuration.d.ts''] =
       Inr ''// Generated by Wrangler on Sun Nov 01 2026''
   \<and> includes_str ''// Generated by Wrangler on Sun Nov 01 2026'' generated_marker
   \<and> writeDTSFile [] [] ServiceWorker ancestor_world = (Inr (), ancestor_world)
   \<and> generateTypes (\<lambda>_. Inr ServiceWorker) empty_config empty_config ancestor_world =
       (Inr (), ancestor_world)"
proof -
  have found: "\<exists>p content. findUpSync ancestor_world dts_name = Some p
      \<and> readFileSync ancestor_world p = Inr content \<and> includes_str content generated_marker"
    using findUpSync_ancestor read_ancestor ancestor_has_marker by blast
  show ?thesis
    using empty_output_writes_nothing [OF disjI2, OF found, of ServiceWorker empty_config]
      findUpSync_ancestor read_ancestor ancestor_has_marker
    by blast
qed




text \<open>
  C5.  For a non-empty list of members and a call that returns normally, the file
  holds the header line and then, under the format \<open>modules\<close>, \<open>interface Env {\<close>, the
  members each behind a tab, \<open>}\<close> and the module declarations; under the other format
  \<open>export {};\<close>, \<open>declare global {\<close>, the members each behind a tab and \<open>const\<close>, \<open>}\<close>
  and the same module declarations.  Taking the tab, or the tab and \<open>const\<close>, off the
  lines of either block gives back the same members.
\<close>

theorem format_selects_wrapping:
  assumes "env \<noteq> []"
    and "fst (writeDTSFile env mods Modules w) = Inr ()"
    and "fst (writeDTSFile env mods ServiceWorker w) = Inr ()"
  shows "files (snd (writeDTSFile env mods Modules w)) (resolve w dts_name) =
           Some (''// Generated by Wrangler on '' @ now w @ [CHR 0x0A]
                 @ ''interface Env {'' @ [CHR 0x0A]
                 @ join [CHR 0x0A] (map (\<lambda>v. [CHR 0x09] @ v) env) @ [CHR 0x0A]
                 @ ''}'' @ [CHR 0x0A]
                 @ join [CHR 0x0A] mods)
       \<and> files (snd (writeDTSFile env mods ServiceWorker w)) (resolve w dts_name) =
           Some (''// Generated by Wrangler on '' @ now w @ [CHR 0x0A]
                 @ ''export {};'' @ [CHR 0x0A]
                 @ ''declare global {'' @ [CHR 0x0A]
                 @ join [CHR 0x0A] (map (\<lambda>v. [CHR 0x09] @ ''const '' @ v) env) @ [CHR 0x0A]
                 @ ''}'' @ [CHR 0x0A]
                 @ join [CHR 0x0A] mods)
       \<and> map (drop 1) (map (\<lambda>v. [CHR 0x09] @ v) env) = env
       \<and> map (drop 7) (map (\<lambda>v. [CHR 0x09] @ ''const '' @ v) env) = env"
proof -
  have ne: "env \<noteq> [] \<or> mods \<noteq> []"
    using assms(1) by simp
  have m: "files (snd (writeDTSFile env mods Modules w)) (resolve w dts_name) =
      Some (file_text w (combinedTypeStrings Modules env mods))"
    using writeDTSFile_success [OF assms(2) ne] by simp
  have g: "files (snd (writeDTSFile env mods ServiceWorker w)) (resolve w dts_name) =
      Some (file_text w (combinedTypeStrings ServiceWorker env mods))"
    using writeDTSFile_success [OF assms(3) ne] by simp
  have strip1: "map (drop 1) (map (\<lambda>v. [CHR 0x09] @ v) env) = env"
    by (induction env) simp_all
  have strip7: "map (drop 7) (map (\<lambda>v. [CHR 0x09] @ ''const '' @ v) env) = env"
    by (induction env) simp_all
  have single: "(@) [c] = (#) c" for c :: char
    by (rule ext) simp
  have cm: "combinedTypeStrings Modules env mods =
      ''interface Env {'' @ [CHR 0x0A]
      @ join [CHR 0x0A] (map (\<lambda>v. [CHR 0x09] @ v) env) @ [CHR 0x0A]
      @ ''}'' @ [CHR 0x0A]
      @ join [CHR 0x0A] mods"
    by (simp add: combinedTypeStrings_def NL_def TAB_def single)
  have cg: "combinedTypeStrings ServiceWorker env mods =
      ''export {};'' @ [CHR 0x0A]
      @ ''declare global {'' @ [CHR 0x0A]
      @ join [CHR 0x0A] (map (\<lambda>v. [CHR 0x09] @ ''const '' @ v) env) @ [CHR 0x0A]
      @ ''}'' @ [CHR 0x0A]
      @ join [CHR 0x0A] mods"
    by (simp add: combinedTypeStrings_def NL_def TAB_def single)
  show ?thesis
    unfolding m g file_text_def NL_def cm cg
    using strip1 strip7 by (simp add: single)
qed

theorem format_selects_wrapping_witness:
  "[''STORE: KVNamespace;''] \<noteq> []
   \<and> fst (writeDTSFile [''STORE: KVNamespace;''] [''M''] Modules bare_world) = Inr ()
   \<and> fst (writeDTSFile [''STORE: KVNamespace;''] [''M''] ServiceWorker bare_world) = Inr ()
   \<and> files (snd (writeDTSFile [''STORE: KVNamespace;''] [''M''] Modules bare_world))
         [''home'', ''proj'', ''worker-configuration.d.ts''] =
       Some (''// Generated by Wrangler on Mon Nov 02 2026 10:00:00 GMT+0000'' @ [CHR 0x0A]
             @ ''interface Env {'' @ [CHR 0x0A]
             @ [CHR 0x09] @ ''STORE: KVNamespace;'' @ [CHR 0x0A]
             @ ''}'' @ [CHR 0x0A]
             @ ''M'')
   \<and> files (snd (writeDTSFile [''STORE: KVNamespace;''] [''M''] ServiceWorker bare_world))
         [''home'', ''proj'', ''worker-configuration.d.ts''] =
       Some (''// Generated by Wrangler on Mon Nov 02 2026 10:00:00 GMT+0000'' @ [CHR 0x0A]
             @ ''export {};'' @ [CHR 0x0A]
             @ ''declare global {'' @ [CHR 0x0A]
             @ [CHR 0x09] @ ''const STORE: KVNamespace;'' @ [CHR 0x0A]
             @ ''}'' @ [CHR 0x0A]
             @ ''M'')"
proof -
  have ne: "[''STORE: KVNamespace;''] \<noteq> []"
    by simp
  have ok: "fst (writeDTSFile [''STORE: KVNamespace;''] [''M''] fmt bare_world) = Inr ()" for fmt
    by (simp add: writeDTSFile_bare)
  have here: "resolve bare_world dts_name = [''home'', ''proj'', ''worker-configuration.d.ts'']"
    by (simp add: resolve_def dts_name_def bare_world_def)
  have clock: "now bare_world = ''Mon Nov 02 2026 10:00:00 GMT+0000''"
    by (simp add: bare_world_def)
  show ?thesis
    using format_selects_wrapping [OF ne ok ok] ne ok
    by (simp add: here clock)
qed

text \<open>
  C10.  Whatever \<open>writeDTSFile\<close> does, every path other than
  \<open>worker-configuration.d.ts\<close> in the working directory keeps its content.  When the
  call returns normally with something to emit, that path holds the header line and
  the assembled text.  When the upward search found the file elsewhere (in an ancestor
  directory), there was no such file in the working directory before, so the write
  creates it, and the file that was found is as it was.
\<close>

theorem write_targets_working_directory:
  assumes "fst (writeDTSFile env mods fmt w) = Inr ()"
    and "env \<noteq> [] \<or> mods \<noteq> []"
  shows "files (snd (writeDTSFile env mods fmt w)) (cwd w @ [''worker-configuration.d.ts'']) =
           Some (file_text w (combinedTypeStrings fmt env mods))
       \<and> (\<forall>q. q = cwd w @ [''worker-configuration.d.ts'']
              \<or> files (snd (writeDTSFile env mods fmt w)) q = files w q)
       \<and> (\<forall>p. findUpSync w dts_name = Some p \<longrightarrow>
              p = cwd w @ [''worker-configuration.d.ts'']
              \<or> files w (cwd w @ [''worker-configuration.d.ts'']) = None
                \<and> files (snd (writeDTSFile env mods fmt w)) p = files w p)"
proof -
  have target: "resolve w dts_name = cwd w @ [''worker-configuration.d.ts'']"
    by (simp add: resolve_def dts_name_def)
  have written: "files (snd (writeDTSFile env mods fmt w)) (resolve w dts_name) =
      Some (file_text w (combinedTypeStrings fmt env mods))"
    using writeDTSFile_success [OF assms] by simp
  have frame: "files (snd (writeDTSFile env mods fmt w)) q = files w q"
    if "q \<noteq> resolve w dts_name" for q
    using that by (rule writeDTSFile_frame)
  have fresh: "files w (resolve w dts_name) = None"
    if "findUpSync w dts_name = Some p" and "p \<noteq> resolve w dts_name" for p
    using that by (rule findUpSync_elsewhere)
  have "files (snd (writeDTSFile env mods fmt w)) (resolve w dts_name) =
           Some (file_text w (combinedTypeStrings fmt env mods))
       \<and> (\<forall>q. q = resolve w dts_name
              \<or> files (snd (writeDTSFile env mods fmt w)) q = files w q)
       \<and> (\<forall>p. findUpSync w dts_name = Some p \<longrightarrow>
              p = resolve w dts_name
              \<or> files w (resolve w dts_name) = None
                \<and> files (snd (writeDTSFile env mods fmt w)) p = files w p)"
    using written frame fresh by blast
  then show ?thesis
    unfolding target .
qed

theorem write_targets_working_directory_witness:
  "fst (writeDTSFile [''STORE: KVNamespace;''] [] Modules ancestor_world) = Inr ()
   \<and> findUpSync ancestor_world dts_name = Some [''home'', ''worker-configuration.d.ts'']
   \<and> cwd ancestor_world @ [''worker-configuration.d.ts''] =
       [''home'', ''proj'', ''worker-configuration.d.ts'']
   \<and> files (snd (writeDTSFile [''STORE: KVNamespace;''] [] Modules ancestor_world))
         [''home'', ''proj'', ''worker-configuration.d.ts''] =
       Some (file_text ancestor_world (combinedTypeStrings Modules [''STORE: KVNamespace;''] []))
   \<and> files ancestor_world [''home'', ''proj'', ''worker-configuration.d.ts''] = None
   \<and> files (snd (writeDTSFile [''STORE: KVNamespace;''] [] Modules ancestor_world))
         [''home'', ''worker-configuration.d.ts''] =
       Some ''// Generated by Wrangler on Sun Nov 01 2026''"
proof -
  have ok: "fst (writeDTSFile [''STORE: KVNamespace;''] [] Modules ancestor_world) = Inr ()"
    by (simp add: writeDTSFile_ancestor)
  have ne: "[''STORE: KVNamespace;''] \<noteq> [] \<or> ([] :: string list) \<noteq> []"
    by simp
  have here: "cwd ancestor_world @ [''worker-configuration.d.ts'']
      = [''home'', ''proj'', ''worker-configuration.d.ts'']"
    by (simp add: ancestor_world_def bare_world_def)
  have other: "[''home'', ''worker-configuration.d.ts'']
      \<noteq> [''home'', ''proj'', ''worker-configuration.d.ts'']"
    by simp
  have before: "files ancestor_world [''home'', ''worker-configuration.d.ts''] =
      Some ''// Generated by Wrangler on Sun Nov 01 2026''"
    by (simp add: ancestor_world_def bare_world_def)
  note facts = write_targets_working_directory [OF ok ne, unfolded here]
  have written: "files (snd (writeDTSFile [''STORE: KVNamespace;''] [] Modules ancestor_world))
         [''home'', ''proj'', ''worker-configuration.d.ts''] =
       Some (file_text ancestor_world (combinedTypeStrings Modules [''STORE: KVNamespace;''] []))"
    using facts by (rule conjunct1)
  have "[''home'', ''worker-configuration.d.ts''] = [''home'', ''proj'', ''worker-configuration.d.ts'']
      \<or> files ancestor_world [''home'', ''proj'', ''worker-configuration.d.ts''] = None
        \<and> files (snd (writeDTSFile [''STORE: KVNamespace;''] [] Modules ancestor_world))
             [''home'', ''worker-configuration.d.ts''] =
            files ancestor_world [''home'', ''worker-configuration.d.ts'']"
    using facts [THEN conjunct2, THEN conjunct2, THEN spec, THEN mp, OF findUpSync_ancestor] .
  then have kept: "files ancestor_world [''home'', ''proj'', ''worker-configuration.d.ts''] = None
        \<and> files (snd (writeDTSFile [''STORE: KVNamespace;''] [] Modules ancestor_world))
             [''home'', ''worker-configuration.d.ts''] =
            Some ''// Generated by Wrangler on Sun Nov 01 2026''"
    using other unfolding before by simp
  from ok findUpSync_ancestor here written kept show ?thesis
    by (intro conjI) (erule conjunct1 conjunct2 | assumption)+
qed

text \<open>
  C3, as amended.  For a fixed configuration and format, the assembled text does not
  depend on the world: two runs that write log the same text, and each writes the
  header line with its own time followed by that text.  The members are the blocks of
  the kinds in the mapper's fixed order, each block in the order of its collection.
\<close>

theorem output_fixed_apart_from_timestamp:
  assumes "(if configContainsEntryPoint config then getEntry config else Inr Modules) = Inr fmt"
    and "fst (generateTypes getEntry c config w1) = Inr ()"
    and "fst (generateTypes getEntry c config w2) = Inr ()"
    and "envTypeStructure c \<noteq> [] \<or> modulesTypeStructure c \<noteq> []"
  shows "files (snd (generateTypes getEntry c config w1)) (resolve w1 dts_name) =
           Some (''// Generated by Wrangler on '' @ now w1 @ [CHR 0x0A]
                 @ combinedTypeStrings fmt (envTypeStructure c) (modulesTypeStructure c))
       \<and> files (snd (generateTypes getEntry c config w2)) (resolve w2 dts_name) =
           Some (''// Generated by Wrangler on '' @ now w2 @ [CHR 0x0A]
                 @ combinedTypeStrings fmt (envTypeStructure c) (modulesTypeStructure c))
       \<and> logged (snd (generateTypes getEntry c config w1)) =
           logged w1 @ [combinedTypeStrings fmt (envTypeStructure c) (modulesTypeStructure c)]
       \<and> logged (snd (generateTypes getEntry c config w2)) =
           logged w2 @ [combinedTypeStrings fmt (envTypeStructure c) (modulesTypeStructure c)]
       \<and> envTypeStructure c = concat (member_blocks c)"
proof -
  have run: "generateTypes getEntry c config w =
      writeDTSFile (envTypeStructure c) (modulesTypeStructure c) fmt w" for w
    using assms(1) by (rule generateTypes_format)
  have r1: "generateTypes getEntry c config w1 =
      (Inr (), w1\<lparr>files := (files w1)(resolve w1 dts_name \<mapsto>
                 file_text w1 (combinedTypeStrings fmt (envTypeStructure c) (modulesTypeStructure c))),
               logged := logged w1 @ [combinedTypeStrings fmt (envTypeStructure c) (modulesTypeStructure c)]\<rparr>)"
    using writeDTSFile_success [of "envTypeStructure c" "modulesTypeStructure c" fmt w1]
      assms(2,4) by (simp add: run)
  have r2: "generateTypes getEntry c config w2 =
      (Inr (), w2\<lparr>files := (files w2)(resolve w2 dts_name \<mapsto>
                 file_text w2 (combinedTypeStrings fmt (envTypeStructure c) (modulesTypeStructure c))),
               logged := logged w2 @ [combinedTypeStrings fmt (envTypeStructure c) (modulesTypeStructure c)]\<rparr>)"
    using writeDTSFile_success [of "envTypeStructure c" "modulesTypeStructure c" fmt w2]
      assms(3,4) by (simp add: run)
  show ?thesis
    by (simp add: r1 r2 file_text_def NL_def envTypeStructure_blocks)
qed

theorem output_fixed_apart_from_timestamp_witness:
  "(if configContainsEntryPoint empty_config then Inr ServiceWorker else Inr Modules)
     = (Inr Modules :: error + CfScriptFormat)
   \<and> fst (generateTypes (\<lambda>_. Inr ServiceWorker) kv_config empty_config bare_world) = Inr ()
   \<and> fst (generateTypes (\<lambda>_. Inr ServiceWorker) kv_config empty_config later_world) = Inr ()
   \<and> envTypeStructure kv_config \<noteq> []
   \<and> logged (snd (generateTypes (\<lambda>_. Inr ServiceWorker) kv_config empty_config bare_world)) =
       logged (snd (generateTypes (\<lambda>_. Inr ServiceWorker) kv_config empty_config later_world))
   \<and> files (snd (generateTypes (\<lambda>_. Inr ServiceWorker) kv_config empty_config bare_world))
         [''home'', ''proj'', ''worker-configuration.d.ts''] =
       Some (''// Generated by Wrangler on '' @ ''Mon Nov 02 2026 10:00:00 GMT+0000'' @ [CHR 0x0A]
             @ combinedTypeStrings Modules (envTypeStructure kv_config) [])
   \<and> files (snd (generateTypes (\<lambda>_. Inr ServiceWorker) kv_config empty_config later_world))
         [''home'', ''proj'', ''worker-configuration.d.ts''] =
       Some (''// Generated by Wrangler on '' @ ''Mon Nov 02 2026 11:00:00 GMT+0000'' @ [CHR 0x0A]
             @ combinedTypeStrings Modules (envTypeStructure kv_config) [])"
proof -
  have fmt: "(if configContainsEntryPoint empty_config then Inr ServiceWorker else Inr Modules)
      = (Inr Modules :: error + CfScriptFormat)"
    by (simp add: configContainsEntryPoint_def empty_config_def)
  have ne: "envTypeStructure kv_config \<noteq> []"
    by (simp add: kv_members)
  have mods: "modulesTypeStructure kv_config = []"
    by (simp add: modulesTypeStructure_def kv_config_def empty_config_def)
  have ok1: "fst (generateTypes (\<lambda>_. Inr ServiceWorker) kv_config empty_config bare_world) = Inr ()"
    using ne by (simp add: generateTypes_no_entry_point writeDTSFile_bare)
  have ok2: "fst (generateTypes (\<lambda>_. Inr ServiceWorker) kv_config empty_config later_world) = Inr ()"
    using ne by (simp add: generateTypes_no_entry_point writeDTSFile_later)
  have here1: "resolve bare_world dts_name = [''home'', ''proj'', ''worker-configuration.d.ts'']"
    by (simp add: resolve_def dts_name_def bare_world_def)
  have here2: "resolve later_world dts_name = [''home'', ''proj'', ''worker-configuration.d.ts'']"
    by (simp add: resolve_def dts_name_def later_world_def bare_world_def)
  have clock1: "now bare_world = ''Mon Nov 02 2026 10:00:00 GMT+0000''"
    by (simp add: bare_world_def)
  have clock2: "now later_world = ''Mon Nov 02 2026 11:00:00 GMT+0000''"
    by (simp add: later_world_def)
  have logs: "logged later_world = logged bare_world"
    by (simp add: later_world_def)
  have ne': "envTypeStructure kv_config \<noteq> [] \<or> modulesTypeStructure kv_config \<noteq> []"
    using ne by (rule disjI1)
  note run = output_fixed_apart_from_timestamp [OF fmt ok1 ok2 ne',
      unfolded here1 here2 clock1 clock2 mods logs]
  have f1: "files (snd (generateTypes (\<lambda>_. Inr ServiceWorker) kv_config empty_config bare_world))
         [''home'', ''proj'', ''worker-configuration.d.ts''] =
       Some (''// Generated by Wrangler on '' @ ''Mon Nov 02 2026 10:00:00 GMT+0000'' @ [CHR 0x0A]
             @ combinedTypeStrings Modules (envTypeStructure kv_config) [])"
    using run by (rule conjunct1)
  have f2: "files (snd (generateTypes (\<lambda>_. Inr ServiceWorker) kv_config empty_config later_world))
         [''home'', ''proj'', ''worker-configuration.d.ts''] =
       Some (''// Generated by Wrangler on '' @ ''Mon Nov 02 2026 11:00:00 GMT+0000'' @ [CHR 0x0A]
             @ combinedTypeStrings Modules (envTypeStructure kv_config) [])"
    using run [THEN conjunct2] by (rule conjunct1)
  have l1: "logged (snd (generateTypes (\<lambda>_. Inr ServiceWorker) kv_config empty_config bare_world)) =
      logged bare_world @ [combinedTypeStrings Modules (envTypeStructure kv_config) []]"
    using run [THEN conjunct2, THEN conjunct2] by (rule conjunct1)
  have l2: "logged (snd (generateTypes (\<lambda>_. Inr ServiceWorker) kv_config empty_config later_world)) =
      logged bare_world @ [combinedTypeStrings Modules (envTypeStructure kv_config) []]"
    using run [THEN conjunct2, THEN conjunct2, THEN conjunct2] by (rule conjunct1)
  have same: "logged (snd (generateTypes (\<lambda>_. Inr ServiceWorker) kv_config empty_config bare_world)) =
       logged (snd (generateTypes (\<lambda>_. Inr ServiceWorker) kv_config empty_config later_world))"
    unfolding l1 l2 by (rule refl)
  from fmt ok1 ok2 ne same f1 f2 show ?thesis
    by (intro conjI) assumption+
qed

text \<open>
  C3 as stated fails: two runs on the same configuration, format and files, an hour
  apart, write different files, because the header line carries the time of the run.
\<close>

theorem timestamp_varies_between_runs:
  "files (snd (generateTypes (\<lambda>_. Inr ServiceWorker) kv_config empty_config bare_world))
       [''home'', ''proj'', ''worker-configuration.d.ts'']
   \<noteq> files (snd (generateTypes (\<lambda>_. Inr ServiceWorker) kv_config empty_config later_world))
       [''home'', ''proj'', ''worker-configuration.d.ts'']"
proof -
  have ne: "envTypeStructure kv_config \<noteq> [] \<or> modulesTypeStructure kv_config \<noteq> []"
    by (simp add: kv_members)
  have here1: "resolve bare_world dts_name = [''home'', ''proj'', ''worker-configuration.d.ts'']"
    by (simp add: resolve_def dts_name_def bare_world_def)
  have here2: "resolve later_world dts_name = [''home'', ''proj'', ''worker-configuration.d.ts'']"
    by (simp add: resolve_def dts_name_def later_world_def bare_world_def)
  have clock: "now bare_world \<noteq> now later_world"
    by (simp add: later_world_def bare_world_def)
  have f1: "files (snd (generateTypes (\<lambda>_. Inr ServiceWorker) kv_config empty_config bare_world))
       [''home'', ''proj'', ''worker-configuration.d.ts''] =
     Some (file_text bare_world
       (combinedTypeStrings Modules (envTypeStructure kv_config) (modulesTypeStructure kv_config)))"
    using ne by (simp add: generateTypes_no_entry_point writeDTSFile_bare here1)
  have f2: "files (snd (generateTypes (\<lambda>_. Inr ServiceWorker) kv_config empty_config later_world))
       [''home'', ''proj'', ''worker-configuration.d.ts''] =
     Some (file_text later_world
       (combinedTypeStrings Modules (envTypeStructure kv_config) (modulesTypeStructure kv_config)))"
    using ne by (simp add: generateTypes_no_entry_point writeDTSFile_later here2)
  show ?thesis
    unfolding f1 f2 using clock by (simp add: file_text_def)
qed

end
